theory Spec2Isabelle
  imports Complex_Main
begin

section \<open>Data model of \<^verbatim>\<open>QuranAudio.tsx\<close>\<close>

text \<open>
  The component keeps its data in React state cells and in one ref to the
  \<^verbatim>\<open>audio\<close> element. The records below follow the TypeScript interfaces
  \<^verbatim>\<open>Ayah\<close> and \<^verbatim>\<open>QuranResponse\<close>. JavaScript numbers that are identifiers or
  array indices are integers here. The field \<^verbatim>\<open>text\<close> is written \<open>a_text\<close>
  and the ayah's \<^verbatim>\<open>number\<close> is written \<open>a_number\<close>.
\<close>

record surah =
  number :: int
  name :: string
  englishName :: string

record ayah =
  a_number :: int
  audio :: string
  a_text :: string
  transliteration :: string
  translation :: string
  surah :: surah

text \<open>The entries of \<^verbatim>\<open>QuranResponse.data.surahs\<close>; \<^verbatim>\<open>audio\<close> is optional there.\<close>

record raw_ayah =
  r_number :: int
  r_audio :: "string option"
  r_text :: string

record raw_surah =
  rs_number :: int
  rs_name :: string
  rs_englishName :: string
  rs_ayahs :: "raw_ayah list"

datatype load_error = FailedToLoad

text \<open>
  What an \<^verbatim>\<open>async\<close> handler still has to do after its \<^verbatim>\<open>await\<close> on a timer:
  \<open>ResumePlay\<close> is the rest of the first branch of \<^verbatim>\<open>handleEnded\<close> (one call of
  \<^verbatim>\<open>play\<close>), \<open>ResumeNextSurah\<close> the rest of the second branch, which closes over
  \<^verbatim>\<open>nextSurah\<close> and the \<^verbatim>\<open>ayahs\<close> of the render that created the handler.
\<close>

datatype continuation =
    ResumePlay
  | ResumeNextSurah surah "ayah list"

text \<open>
  \<open>audioRef\<close> is \<^verbatim>\<open>audioRef.current\<close>: \<open>None\<close> is \<^verbatim>\<open>null\<close>, \<open>Some s\<close> an element
  whose \<^verbatim>\<open>src\<close> was last assigned \<open>s\<close>. \<open>played\<close> lists the calls of \<^verbatim>\<open>play()\<close>
  in order, each with the source the element had at the call. \<open>pending\<close> lists
  the timers set by \<^verbatim>\<open>setTimeout\<close> with their delay in milliseconds.
  \<open>unhandled\<close> counts rejections of the promise of \<^verbatim>\<open>handleEnded\<close>.
\<close>

record state =
  ayahs :: "ayah list"
  surahs :: "surah list"
  currentSurah :: "int option"
  currentAyah :: "int option"
  loading :: bool
  error :: "load_error option"
  audioRef :: "string option"
  played :: "string list"
  pending :: "(nat \<times> continuation) list"
  unhandled :: nat

section \<open>JavaScript array primitives\<close>

text \<open>\<^verbatim>\<open>xs[i]\<close>: \<^verbatim>\<open>undefined\<close> (here \<open>None\<close>) outside \<open>0 \<le> i < length\<close>.\<close>

definition js_index :: "'a list \<Rightarrow> int \<Rightarrow> 'a option" where
  "js_index xs i = (if 0 \<le> i \<and> i < int (length xs) then Some (xs ! nat i) else None)"

text \<open>\<^verbatim>\<open>Array.prototype.findIndex\<close>: the first position that satisfies \<open>P\<close>, or \<open>-1\<close>.\<close>

fun findIndex :: "('a \<Rightarrow> bool) \<Rightarrow> 'a list \<Rightarrow> int" where
  "findIndex P [] = - 1"
| "findIndex P (x # xs) =
     (if P x then 0
      else (let r = findIndex P xs in if r = - 1 then - 1 else r + 1))"

text \<open>Truthiness of a \<^verbatim>\<open>number | null\<close>: \<^verbatim>\<open>null\<close> and \<open>0\<close> are falsy.\<close>

definition truthy :: "int option \<Rightarrow> bool" where
  "truthy v = (case v of None \<Rightarrow> False | Some n \<Rightarrow> n \<noteq> 0)"

section \<open>The playback sequencer\<close>

text \<open>
  \<^verbatim>\<open>const filteredAyahs = currentSurah
       ? ayahs.filter((a) => a.surah.number === currentSurah) : [];\<close>
\<close>

definition filteredAyahs :: "state \<Rightarrow> ayah list" where
  "filteredAyahs st =
     (if truthy (currentSurah st)
      then filter (\<lambda>a. Some (number (surah a)) = currentSurah st) (ayahs st)
      else [])"

text \<open>
  \<^verbatim>\<open>handlePlayAyah(index)\<close>: returns early when \<^verbatim>\<open>filteredAyahs[index]\<close> is
  undefined or the audio element is absent; otherwise assigns the source,
  calls \<^verbatim>\<open>play()\<close> and sets \<^verbatim>\<open>currentAyah\<close>.
\<close>

definition handlePlayAyah :: "int \<Rightarrow> state \<Rightarrow> state" where
  "handlePlayAyah index st =
     (case js_index (filteredAyahs st) index of
        None \<Rightarrow> st
      | Some ayah \<Rightarrow>
          (case audioRef st of
             None \<Rightarrow> st
           | Some _ \<Rightarrow>
               st\<lparr>audioRef := Some (audio ayah),
                  played := played st @ [audio ayah],
                  currentAyah := Some index\<rparr>))"

text \<open>
  \<^verbatim>\<open>handleEnded\<close>, up to its \<^verbatim>\<open>await\<close>. It returns at once when no item is
  current, the filtered list is empty or the audio element is absent. Inside
  the section it sets \<^verbatim>\<open>currentAyah\<close> and the source at once and leaves the call
  of \<^verbatim>\<open>play()\<close> to a timer of 1000 ms; reading \<^verbatim>\<open>nextAyah.audio\<close> of an undefined
  \<^verbatim>\<open>nextAyah\<close> rejects the handler's promise after \<^verbatim>\<open>setCurrentAyah\<close> has run.
  At the end of the section it looks the next section up by position,
  \<^verbatim>\<open>surahs[surahs.findIndex((s) => s.number === currentSurah) + 1]\<close>, and leaves
  everything else to a timer of 2000 ms.
\<close>

definition handleEnded :: "state \<Rightarrow> state" where
  "handleEnded st =
     (case currentAyah st of
        None \<Rightarrow> st
      | Some cur \<Rightarrow>
          if filteredAyahs st = [] \<or> audioRef st = None then st
          else
            (let next = cur + 1 in
             if next < int (length (filteredAyahs st)) then
               (case js_index (filteredAyahs st) next of
                  None \<Rightarrow> st\<lparr>currentAyah := Some next, unhandled := Suc (unhandled st)\<rparr>
                | Some nextAyah \<Rightarrow>
                    st\<lparr>currentAyah := Some next,
                       audioRef := Some (audio nextAyah),
                       pending := pending st @ [(1000, ResumePlay)]\<rparr>)
             else
               (let nextSurahIndex =
                      findIndex (\<lambda>s. Some (number s) = currentSurah st) (surahs st) + 1
                in case js_index (surahs st) nextSurahIndex of
                     None \<Rightarrow> st
                   | Some nextSurah \<Rightarrow>
                       st\<lparr>pending :=
                            pending st @ [(2000, ResumeNextSurah nextSurah (ayahs st))]\<rparr>)))"

text \<open>
  The rest of \<^verbatim>\<open>handleEnded\<close> after the timer. \<open>ResumePlay\<close> calls \<^verbatim>\<open>play()\<close> on
  the element as it is then (a \<^verbatim>\<open>null\<close> ref rejects the promise).
  \<open>ResumeNextSurah\<close> sets \<^verbatim>\<open>currentSurah\<close> and \<^verbatim>\<open>currentAyah\<close> without a test and
  plays the first item of the next section when there is one and the element
  is present.
\<close>

fun resume :: "continuation \<Rightarrow> state \<Rightarrow> state" where
  "resume ResumePlay st =
     (case audioRef st of
        None \<Rightarrow> st\<lparr>unhandled := Suc (unhandled st)\<rparr>
      | Some src \<Rightarrow> st\<lparr>played := played st @ [src]\<rparr>)"
| "resume (ResumeNextSurah nextSurah ays) st =
     (let st1 = st\<lparr>currentSurah := Some (number nextSurah), currentAyah := Some 0\<rparr>;
          nextSurahAyahs = filter (\<lambda>a. number (surah a) = number nextSurah) ays
      in case nextSurahAyahs of
           [] \<Rightarrow> st1
         | first # _ \<Rightarrow>
             (case audioRef st of
                None \<Rightarrow> st1
              | Some _ \<Rightarrow>
                  st1\<lparr>audioRef := Some (audio first),
                      played := played st @ [audio first]\<rparr>))"

text \<open>The timer at position \<open>k\<close> of the pending list expires and its handler resumes.\<close>

definition timer_fires :: "nat \<Rightarrow> state \<Rightarrow> state" where
  "timer_fires k st =
     (if k < length (pending st)
      then resume (snd (pending st ! k))
             (st\<lparr>pending := take k (pending st) @ drop (Suc k) (pending st)\<rparr>)
      else st)"

text \<open>
  The \<^verbatim>\<open>onClick\<close> of a section button, for the section \<open>s\<close> the button was
  rendered for: sets \<^verbatim>\<open>currentSurah\<close> and \<^verbatim>\<open>currentAyah\<close> to \<open>0\<close> without a test,
  then plays \<^verbatim>\<open>ayahs.find((a) => a.surah.number === s.number)\<close> when the element
  and that item both exist.
\<close>

definition surahOnClick :: "surah \<Rightarrow> state \<Rightarrow> state" where
  "surahOnClick s st =
     (let st1 = st\<lparr>currentSurah := Some (number s), currentAyah := Some 0\<rparr>
      in case audioRef st of
           None \<Rightarrow> st1
         | Some _ \<Rightarrow>
             (case find (\<lambda>a. number (surah a) = number s) (ayahs st) of
                None \<Rightarrow> st1
              | Some firstAyah \<Rightarrow>
                  st1\<lparr>audioRef := Some (audio firstAyah),
                      played := played st @ [audio firstAyah]\<rparr>))"

text \<open>
  What a render commits to the ref: the component returns the loading or the
  error view first, and renders the \<^verbatim>\<open>audio\<close> element only inside
  \<^verbatim>\<open>{currentSurah ? (...) : (...)}\<close>. A newly mounted element has an empty source.
\<close>

definition render :: "state \<Rightarrow> state" where
  "render st =
     (if loading st \<or> error st \<noteq> None then st\<lparr>audioRef := None\<rparr>
      else if truthy (currentSurah st)
      then (case audioRef st of None \<Rightarrow> st\<lparr>audioRef := Some ''''\<rparr> | Some _ \<Rightarrow> st)
      else st\<lparr>audioRef := None\<rparr>)"

text \<open>The values of the \<^verbatim>\<open>useState\<close> and \<^verbatim>\<open>useRef\<close> initialisers.\<close>

definition initial :: state where
  "initial =
     \<lparr>ayahs = [], surahs = [], currentSurah = None, currentAyah = None,
      loading = True, error = None, audioRef = None, played = [],
      pending = [], unhandled = 0\<rparr>"

text \<open>The playback position: the pair of \<^verbatim>\<open>currentSurah\<close> and \<^verbatim>\<open>currentAyah\<close>.\<close>

definition position :: "state \<Rightarrow> int option \<times> int option" where
  "position st = (currentSurah st, currentAyah st)"

section \<open>The load-time merge\<close>

text \<open>\<^verbatim>\<open>tr.surahs?.[si]?.ayahs?.[ai]?.text ?? ""\<close>\<close>

definition edition_text :: "raw_surah list \<Rightarrow> nat \<Rightarrow> nat \<Rightarrow> string" where
  "edition_text ed si ai =
     (case js_index ed (int si) of
        None \<Rightarrow> ''''
      | Some s \<Rightarrow>
          (case js_index (rs_ayahs s) (int ai) of
             None \<Rightarrow> ''''
           | Some a \<Rightarrow> r_text a))"

definition surahList :: "raw_surah list \<Rightarrow> surah list" where
  "surahList ar =
     map (\<lambda>s. \<lparr>number = rs_number s, name = rs_name s, englishName = rs_englishName s\<rparr>) ar"

text \<open>
  \<^verbatim>\<open>ar.surahs.flatMap((s, si) => s.ayahs.map((a, ai) => ({...})))\<close>;
  \<^verbatim>\<open>a.audio || ""\<close> is the empty string for a missing locator.
\<close>

definition combined :: "raw_surah list \<Rightarrow> raw_surah list \<Rightarrow> raw_surah list \<Rightarrow> ayah list" where
  "combined ar tr en =
     concat (map (\<lambda>(si, s).
        map (\<lambda>(ai, a).
          \<lparr>a_number = r_number a,
           audio = (case r_audio a of None \<Rightarrow> '''' | Some u \<Rightarrow> u),
           a_text = r_text a,
           transliteration = edition_text tr si ai,
           translation = edition_text en si ai,
           surah = \<lparr>number = rs_number s, name = rs_name s,
                    englishName = rs_englishName s\<rparr>\<rparr>)
          (enumerate 0 (rs_ayahs s)))
        (enumerate 0 ar))"

text \<open>
  \<^verbatim>\<open>fetchAll\<close>: \<open>None\<close> stands for a rejected request (the \<^verbatim>\<open>catch\<close> branch),
  \<open>Some (ar, tr, en)\<close> for the three editions received.
\<close>

definition fetchAll ::
  "(raw_surah list \<times> raw_surah list \<times> raw_surah list) option \<Rightarrow> state \<Rightarrow> state" where
  "fetchAll res st =
     (case res of
        None \<Rightarrow> st\<lparr>error := Some FailedToLoad, loading := False\<rparr>
      | Some (ar, tr, en) \<Rightarrow>
          st\<lparr>surahs := surahList ar, ayahs := combined ar tr en, loading := False\<rparr>)"

section \<open>The scroll effects\<close>

text \<open>
  The layout numbers the effects read: \<^verbatim>\<open>offsetTop\<close>, \<^verbatim>\<open>offsetHeight\<close> and
  \<^verbatim>\<open>clientHeight\<close> are integers in the DOM; \<open>attached\<close> is \<^verbatim>\<open>offsetParent !== null\<close>.
  The division by two is exact on rationals, as it is on the doubles of
  JavaScript for integers of this size.
\<close>

record element =
  offsetTop :: int
  offsetHeight :: int
  clientHeight :: int
  attached :: bool

datatype behavior = Auto | Smooth

record scroll_command =
  sc_top :: rat
  sc_behavior :: behavior

record dom =
  surahScrollRef :: "element option"
  surahMobileScrollRef :: "element option"
  ayahScrollRef :: "element option"
  surahDesktopRefs :: "element option list"
  surahMobileRefs :: "element option list"
  ayahRefs :: "element option list"

text \<open>An entry of an array of refs: undefined and \<^verbatim>\<open>null\<close> are both falsy.\<close>

definition ref_at :: "element option list \<Rightarrow> int \<Rightarrow> element option" where
  "ref_at refs i = (case js_index refs i of None \<Rightarrow> None | Some r \<Rightarrow> r)"

definition isVisible :: "element option \<Rightarrow> bool" where
  "isVisible el = (case el of None \<Rightarrow> False | Some e \<Rightarrow> attached e)"

definition getActiveSurahContext :: "dom \<Rightarrow> int \<Rightarrow> element option \<times> element option" where
  "getActiveSurahContext d index =
     (let mobileContainer = surahMobileScrollRef d;
          desktopContainer = surahScrollRef d;
          mobileNode = ref_at (surahMobileRefs d) index;
          desktopNode = ref_at (surahDesktopRefs d) index
      in if isVisible mobileContainer \<and> mobileNode \<noteq> None
         then (mobileContainer, mobileNode)
         else if isVisible desktopContainer \<and> desktopNode \<noteq> None
         then (desktopContainer, desktopNode)
         else ((case mobileContainer of None \<Rightarrow> desktopContainer | Some c \<Rightarrow> Some c),
               (case mobileNode of None \<Rightarrow> desktopNode | Some n \<Rightarrow> Some n)))"

text \<open>
  The body of the animation frame, the same in both effects:
  \<^verbatim>\<open>offset = node.offsetTop - container.clientHeight / 2 + node.offsetHeight / 2\<close>,
  then \<^verbatim>\<open>scrollTo({top: Math.max(offset, 0), behavior: ...})\<close>.
\<close>

definition scroll_offset :: "element \<Rightarrow> element \<Rightarrow> rat" where
  "scroll_offset container node =
     of_int (offsetTop node) - of_int (clientHeight container) / 2
       + of_int (offsetHeight node) / 2"

definition scrollTo :: "element \<Rightarrow> element \<Rightarrow> bool \<Rightarrow> scroll_command" where
  "scrollTo container node prefersReducedMotion =
     \<lparr>sc_top = max (scroll_offset container node) 0,
      sc_behavior = (if prefersReducedMotion then Auto else Smooth)\<rparr>"

text \<open>
  The two layout effects; \<open>None\<close> when the effect returns before it asks for
  an animation frame.
\<close>

definition surah_scroll_effect :: "state \<Rightarrow> dom \<Rightarrow> bool \<Rightarrow> scroll_command option" where
  "surah_scroll_effect st d prefersReducedMotion =
     (if currentSurah st = None then None
      else
        (let index = findIndex (\<lambda>s. Some (number s) = currentSurah st) (surahs st)
         in if index = - 1 then None
            else
              (case getActiveSurahContext d index of
                 (Some container, Some node) \<Rightarrow>
                   Some (scrollTo container node prefersReducedMotion)
               | _ \<Rightarrow> None)))"

definition ayah_scroll_effect :: "state \<Rightarrow> dom \<Rightarrow> bool \<Rightarrow> scroll_command option" where
  "ayah_scroll_effect st d prefersReducedMotion =
     (case currentAyah st of
        None \<Rightarrow> None
      | Some cur \<Rightarrow>
          (case (ayahScrollRef d, ref_at (ayahRefs d) cur) of
             (Some container, Some node) \<Rightarrow>
               Some (scrollTo container node prefersReducedMotion)
           | _ \<Rightarrow> None))"

section \<open>Notions of the specification\<close>

text \<open>
  The specification's next section: the section of the list with the smallest
  identifier greater than \<open>S\<close>. The code never computes it this way; the
  claim about the end of a section compares the two.
\<close>

definition is_next_section :: "surah list \<Rightarrow> int \<Rightarrow> surah \<Rightarrow> bool" where
  "is_next_section ss S ns =
     (ns \<in> set ss \<and> S < number ns
      \<and> (\<forall>s \<in> set ss. S < number s \<longrightarrow> number ns \<le> number s))"


text \<open>The number of items of the first edition before its section \<open>K\<close>.\<close>

definition section_offset :: "raw_surah list \<Rightarrow> nat \<Rightarrow> nat" where
  "section_offset ar K = sum_list (map (\<lambda>s. length (rs_ayahs s)) (take K ar))"

section \<open>A small run of the component\<close>

text \<open>
  Three editions whose counts differ: the recitation has five sections with
  2, 1, 0, 1 and 1 items, the second and the last item without an audio
  locator; the transliteration has one section with one item; the
  translation has none.
\<close>

definition demo_ar :: "raw_surah list" where
  "demo_ar =
     [\<lparr>rs_number = 1, rs_name = ''n1'', rs_englishName = ''e1'',
       rs_ayahs = [\<lparr>r_number = 1, r_audio = Some ''a1.mp3'', r_text = ''t1''\<rparr>,
                   \<lparr>r_number = 2, r_audio = None, r_text = ''t2''\<rparr>]\<rparr>,
      \<lparr>rs_number = 2, rs_name = ''n2'', rs_englishName = ''e2'',
       rs_ayahs = [\<lparr>r_number = 3, r_audio = Some ''a3.mp3'', r_text = ''t3''\<rparr>]\<rparr>,
      \<lparr>rs_number = 3, rs_name = ''n3'', rs_englishName = ''e3'', rs_ayahs = []\<rparr>,
      \<lparr>rs_number = 4, rs_name = ''n4'', rs_englishName = ''e4'',
       rs_ayahs = [\<lparr>r_number = 4, r_audio = Some ''a4.mp3'', r_text = ''t4''\<rparr>]\<rparr>,
      \<lparr>rs_number = 5, rs_name = ''n5'', rs_englishName = ''e5'',
       rs_ayahs = [\<lparr>r_number = 5, r_audio = None, r_text = ''t5''\<rparr>]\<rparr>]"

definition demo_tr :: "raw_surah list" where
  "demo_tr =
     [\<lparr>rs_number = 7, rs_name = ''n7'', rs_englishName = ''e7'',
       rs_ayahs = [\<lparr>r_number = 9, r_audio = None, r_text = ''x1''\<rparr>]\<rparr>]"

definition demo_en :: "raw_surah list" where
  "demo_en = []"

text \<open>After the load and the first render: nothing selected, no audio element.\<close>

definition demo_idle :: state where
  "demo_idle = render (fetchAll (Some (demo_ar, demo_tr, demo_en)) initial)"

text \<open>After a click on the first section and the render that mounts the element.\<close>

definition demo_playing :: state where
  "demo_playing = render (surahOnClick (surahs demo_idle ! 0) demo_idle)"

text \<open>After a click on the second item of the first section.\<close>

definition demo_last :: state where
  "demo_last = render (handlePlayAyah 1 demo_playing)"

text \<open>After a click on the second, on the fourth and on the fifth section.\<close>

definition demo_second :: state where
  "demo_second = render (surahOnClick (surahs demo_playing ! 1) demo_playing)"

definition demo_fourth :: state where
  "demo_fourth = render (surahOnClick (surahs demo_playing ! 3) demo_playing)"

definition demo_fifth :: state where
  "demo_fifth = render (surahOnClick (surahs demo_playing ! 4) demo_playing)"

text \<open>
  A layout for the run: a list container 400 high, a first entry at offset 10
  and a second one at offset 1000, each 50 high; only the desktop section
  list is rendered.
\<close>

definition demo_container :: element where
  "demo_container = \<lparr>offsetTop = 0, offsetHeight = 400, clientHeight = 400, attached = True\<rparr>"

definition demo_node :: element where
  "demo_node = \<lparr>offsetTop = 1000, offsetHeight = 50, clientHeight = 50, attached = True\<rparr>"

definition demo_dom :: dom where
  "demo_dom =
     \<lparr>surahScrollRef = Some demo_container, surahMobileScrollRef = None,
      ayahScrollRef = Some demo_container,
      surahDesktopRefs = [Some demo_node], surahMobileRefs = [],
      ayahRefs = [Some (demo_node\<lparr>offsetTop := 10\<rparr>), Some demo_node]\<rparr>"

section \<open>Facts about the run\<close>

lemma demo_idle_eq:
  "demo_idle =
     \<lparr>ayahs =
        [\<lparr>a_number = 1, audio = ''a1.mp3'', a_text = ''t1'', transliteration = ''x1'',
          translation = '''', surah = \<lparr>number = 1, name = ''n1'', englishName = ''e1''\<rparr>\<rparr>,
         \<lparr>a_number = 2, audio = '''', a_text = ''t2'', transliteration = '''',
          translation = '''', surah = \<lparr>number = 1, name = ''n1'', englishName = ''e1''\<rparr>\<rparr>,
         \<lparr>a_number = 3, audio = ''a3.mp3'', a_text = ''t3'', transliteration = '''',
          translation = '''', surah = \<lparr>number = 2, name = ''n2'', englishName = ''e2''\<rparr>\<rparr>,
         \<lparr>a_number = 4, audio = ''a4.mp3'', a_text = ''t4'', transliteration = '''',
          translation = '''', surah = \<lparr>number = 4, name = ''n4'', englishName = ''e4''\<rparr>\<rparr>,
         \<lparr>a_number = 5, audio = '''', a_text = ''t5'', transliteration = '''',
          translation = '''', surah = \<lparr>number = 5, name = ''n5'', englishName = ''e5''\<rparr>\<rparr>],
      surahs =
        [\<lparr>number = 1, name = ''n1'', englishName = ''e1''\<rparr>,
         \<lparr>number = 2, name = ''n2'', englishName = ''e2''\<rparr>,
         \<lparr>number = 3, name = ''n3'', englishName = ''e3''\<rparr>,
         \<lparr>number = 4, name = ''n4'', englishName = ''e4''\<rparr>,
         \<lparr>number = 5, name = ''n5'', englishName = ''e5''\<rparr>],
      currentSurah = None, currentAyah = None, loading = False, error = None,
      audioRef = None, played = [], pending = [], unhandled = 0\<rparr>"
  by (simp add: demo_idle_def render_def fetchAll_def initial_def demo_ar_def demo_tr_def
        demo_en_def combined_def surahList_def edition_text_def js_index_def truthy_def)

lemma demo_playing_eq:
  "demo_playing =
     demo_idle\<lparr>currentSurah := Some 1, currentAyah := Some 0, audioRef := Some ''''\<rparr>"
  by (simp add: demo_playing_def demo_idle_eq render_def surahOnClick_def truthy_def)

lemma demo_last_eq:
  "demo_last =
     demo_idle\<lparr>currentSurah := Some 1, currentAyah := Some 1, audioRef := Some '''',
               played := ['''']\<rparr>"
  by (simp add: demo_last_def demo_playing_eq demo_idle_eq render_def handlePlayAyah_def
        js_index_def filteredAyahs_def truthy_def)

lemma demo_second_eq:
  "demo_second =
     demo_idle\<lparr>currentSurah := Some 2, currentAyah := Some 0,
               audioRef := Some ''a3.mp3'', played := [''a3.mp3'']\<rparr>"
  by (simp add: demo_second_def demo_playing_eq demo_idle_eq render_def surahOnClick_def
        truthy_def)

lemma demo_fourth_eq:
  "demo_fourth =
     demo_idle\<lparr>currentSurah := Some 4, currentAyah := Some 0,
               audioRef := Some ''a4.mp3'', played := [''a4.mp3'']\<rparr>"
  by (simp add: demo_fourth_def demo_playing_eq demo_idle_eq render_def surahOnClick_def
        truthy_def)

lemma demo_fifth_eq:
  "demo_fifth =
     demo_idle\<lparr>currentSurah := Some 5, currentAyah := Some 0,
               audioRef := Some '''', played := ['''']\<rparr>"
  by (simp add: demo_fifth_def demo_playing_eq demo_idle_eq render_def surahOnClick_def
        truthy_def)

lemmas demo_states =
  demo_playing_eq demo_last_eq demo_second_eq demo_fourth_eq demo_fifth_eq demo_idle_eq

text \<open>
  A render with a selected section mounts the audio element; a render without
  one, or while loading or after a failed load, leaves the ref empty.
\<close>

lemma render_mounts_audio:
  "\<not> loading st \<Longrightarrow> error st = None \<Longrightarrow> truthy (currentSurah st)
     \<Longrightarrow> audioRef (render st) \<noteq> None"
  by (simp add: render_def split: option.splits)

lemma render_without_section:
  "\<not> truthy (currentSurah st) \<Longrightarrow> audioRef (render st) = None"
  by (simp add: render_def)

lemmas run_defs =
  filteredAyahs_def truthy_def js_index_def handlePlayAyah_def handleEnded_def
  timer_fires_def surahOnClick_def position_def Let_def

section \<open>Facts about \<^verbatim>\<open>findIndex\<close>\<close>

lemma findIndex_range: "- 1 \<le> findIndex P xs \<and> findIndex P xs < int (length xs)"
  by (induction xs) (auto simp: Let_def)

lemma findIndex_none: "findIndex P xs = - 1 \<longleftrightarrow> (\<forall>x \<in> set xs. \<not> P x)"
proof (induction xs)
  case Nil
  then show ?case by simp
next
  case (Cons x xs)
  have "- 1 \<le> findIndex P xs" using findIndex_range[of P xs] by simp
  with Cons show ?case by (auto simp: Let_def)
qed

lemma findIndex_hit:
  assumes "findIndex P xs \<noteq> - 1"
  shows "P (xs ! nat (findIndex P xs))"
  using assms
proof (induction xs)
  case Nil
  then show ?case by simp
next
  case (Cons x xs)
  have r: "- 1 \<le> findIndex P xs" using findIndex_range[of P xs] by simp
  show ?case
  proof (cases "P x")
    case True
    then show ?thesis by simp
  next
    case False
    with Cons.prems have ne: "findIndex P xs \<noteq> - 1"
      by (auto simp: Let_def split: if_splits)
    with r have "0 \<le> findIndex P xs" by arith
    then have "nat (findIndex P xs + 1) = Suc (nat (findIndex P xs))" by arith
    with False ne Cons.IH show ?thesis by (simp add: Let_def)
  qed
qed

text \<open>
  In a list in strictly ascending order of identifiers that holds \<open>S\<close>, the
  position after the first section numbered \<open>S\<close> holds the specification's next
  section, and is past the end exactly when no identifier is greater.
\<close>

lemma positional_next_is_least_greater:
  assumes srt: "sorted_wrt (<) (map number ss)" and mem: "S \<in> number ` set ss"
  shows "case js_index ss (findIndex (\<lambda>s. Some (number s) = Some S) ss + 1) of
           None \<Rightarrow> (\<forall>s \<in> set ss. \<not> S < number s)
         | Some ns \<Rightarrow> is_next_section ss S ns"
proof -
  let ?P = "\<lambda>s. Some (number s) = Some S"
  let ?k = "findIndex ?P ss"
  from mem have ne: "?k \<noteq> - 1" by (auto simp: findIndex_none)
  with findIndex_range[of ?P ss] have k0: "0 \<le> ?k" and kl: "?k < int (length ss)" by auto
  from findIndex_hit[OF ne] have hit: "number (ss ! nat ?k) = S" by simp
  have mono: "\<And>i j. i < j \<Longrightarrow> j < length ss \<Longrightarrow> number (ss ! i) < number (ss ! j)"
    using srt by (simp add: sorted_wrt_iff_nth_less)
  have below: "number (ss ! j) \<le> S" if "j \<le> nat ?k" "j < length ss" for j
  proof (cases "j = nat ?k")
    case True
    with hit show ?thesis by simp
  next
    case False
    with that have "j < nat ?k" by simp
    moreover have "nat ?k < length ss" using kl k0 by arith
    ultimately have "number (ss ! j) < number (ss ! nat ?k)" by (rule mono)
    with hit show ?thesis by simp
  qed
  show ?thesis
  proof (cases "?k + 1 < int (length ss)")
    case True
    then have idx: "js_index ss (?k + 1) = Some (ss ! nat (?k + 1))"
      using k0 by (simp add: js_index_def)
    have n1: "nat (?k + 1) = Suc (nat ?k)" using k0 by arith
    have lt: "Suc (nat ?k) < length ss" using True k0 by arith
    have gt: "S < number (ss ! Suc (nat ?k))"
      using mono[of "nat ?k" "Suc (nat ?k)"] lt hit by simp
    have least: "number (ss ! Suc (nat ?k)) \<le> number s" if "s \<in> set ss" "S < number s" for s
    proof -
      from that(1) obtain j where j: "j < length ss" "ss ! j = s"
        by (auto simp: in_set_conv_nth)
      have "\<not> j \<le> nat ?k" using below[of j] j that(2) by auto
      then have "Suc (nat ?k) \<le> j" by simp
      then show ?thesis
        using mono[of "Suc (nat ?k)" j] j by (cases "Suc (nat ?k) = j") auto
    qed
    show ?thesis using idx n1 lt gt least by (auto simp: is_next_section_def)
  next
    case False
    then have idx: "js_index ss (?k + 1) = None" by (simp add: js_index_def)
    have "\<not> S < number s" if "s \<in> set ss" for s
    proof -
      from that obtain j where j: "j < length ss" "ss ! j = s"
        by (auto simp: in_set_conv_nth)
      then have "j \<le> nat ?k" using False k0 by arith
      from below[OF this j(1)] j show ?thesis by simp
    qed
    with idx show ?thesis by simp
  qed
qed

section \<open>Facts about lists and the handlers\<close>

lemma find_filter_conv:
  "find P xs = (case filter P xs of [] \<Rightarrow> None | x # _ \<Rightarrow> Some x)"
  by (induction xs) auto

lemma filteredAyahs_surahOnClick:
  "filteredAyahs (surahOnClick s st) =
     (if number s \<noteq> 0 then filter (\<lambda>a. number (surah a) = number s) (ayahs st) else [])"
  by (simp add: filteredAyahs_def surahOnClick_def truthy_def Let_def split: option.splits)

lemma nth_concat_offset:
  "K < length xss \<Longrightarrow> N < length (xss ! K) \<Longrightarrow>
     concat xss ! (sum_list (map length (take K xss)) + N) = xss ! K ! N"
proof (induction xss arbitrary: K)
  case Nil
  then show ?case by simp
next
  case (Cons xs xss)
  show ?case
  proof (cases K)
    case 0
    with Cons.prems show ?thesis by (simp add: nth_append)
  next
    case (Suc k)
    with Cons.prems have "k < length xss" "N < length (xss ! k)" by simp_all
    from Cons.IH[OF this] Suc show ?thesis by (simp add: nth_append add.assoc)
  qed
qed

lemma length_concat_sum: "length (concat xss) = sum_list (map length xss)"
  by (induction xss) auto

lemma map_enumerate_lengths:
  "map length (map (\<lambda>(si, s). map (g si s) (enumerate 0 (rs_ayahs s))) (enumerate n ar))
     = map (\<lambda>s. length (rs_ayahs s)) ar"
  by (induction ar arbitrary: n) auto

lemma edition_text_conv:
  "edition_text ed K N =
     (if K < length ed \<and> N < length (rs_ayahs (ed ! K)) then r_text (rs_ayahs (ed ! K) ! N)
      else '''')"
  by (simp add: edition_text_def js_index_def)

section \<open>Auto-advance inside a section\<close>

text \<open>
  Claim C1. Let section \<open>S\<close> be active with the audio element present (it is the
  element whose \<^verbatim>\<open>ended\<close> event calls the handler, mounted by every render with a
  selected section), and let the active index \<open>i\<close> have a successor \<open>i + 1\<close>
  inside the filtered item list.
  Then \<open>handleEnded\<close> moves the playback position to \<open>(S, i + 1)\<close> at once, loads
  the locator of item \<open>i + 1\<close>, issues no play command yet and sets one timer
  of 1000 ms; when that timer fires, one play command is issued, on the
  locator of item \<open>i + 1\<close> (whether that locator is empty or not), and nothing
  else changes.
\<close>

theorem handleEnded_within_section:
  assumes aud: "audioRef st \<noteq> None"
    and cs: "currentSurah st = Some S"
    and ca: "currentAyah st = Some i"
    and i0: "0 \<le> i"
    and nx: "i + 1 < int (length (filteredAyahs st))"
  shows "handleEnded st =
           st\<lparr>currentAyah := Some (i + 1),
              audioRef := Some (audio (filteredAyahs st ! nat (i + 1))),
              pending := pending st @ [(1000, ResumePlay)]\<rparr>
         \<and> position (handleEnded st) = (Some S, Some (i + 1))
         \<and> played (handleEnded st) = played st
         \<and> timer_fires (length (pending st)) (handleEnded st) =
             st\<lparr>currentAyah := Some (i + 1),
                audioRef := Some (audio (filteredAyahs st ! nat (i + 1))),
                played := played st @ [audio (filteredAyahs st ! nat (i + 1))]\<rparr>"
proof -
  from nx i0 have ne: "filteredAyahs st \<noteq> []" by auto
  from nx i0 have idx:
    "js_index (filteredAyahs st) (i + 1) = Some (filteredAyahs st ! nat (i + 1))"
    by (simp add: js_index_def)
  have step: "handleEnded st =
           st\<lparr>currentAyah := Some (i + 1),
              audioRef := Some (audio (filteredAyahs st ! nat (i + 1))),
              pending := pending st @ [(1000, ResumePlay)]\<rparr>"
    using aud ca ne nx idx by (simp add: handleEnded_def Let_def)
  show ?thesis
    unfolding step using cs by (simp add: position_def timer_fires_def)
qed

text \<open>The run at the first item of the first section, which has two items.\<close>

theorem handleEnded_within_section_witness:
  "audioRef demo_playing \<noteq> None
   \<and> currentSurah demo_playing = Some 1
   \<and> currentAyah demo_playing = Some 0
   \<and> (0::int) + 1 < int (length (filteredAyahs demo_playing))
   \<and> position (handleEnded demo_playing) = (Some 1, Some 1)
   \<and> pending (handleEnded demo_playing) = [(1000, ResumePlay)]
   \<and> played (handleEnded demo_playing) = []
   \<and> played (timer_fires 0 (handleEnded demo_playing)) = ['''']"
proof -
  have a: "audioRef demo_playing \<noteq> None" by (simp add: demo_states)
  have b: "currentSurah demo_playing = Some 1" by (simp add: demo_states)
  have c: "currentAyah demo_playing = Some 0" by (simp add: demo_states)
  have d: "(0::int) + 1 < int (length (filteredAyahs demo_playing))"
    by (simp add: demo_states run_defs)
  have e: "pending demo_playing = []" "played demo_playing = []"
    "audio (filteredAyahs demo_playing ! nat (0 + 1)) = ''''"
    by (simp_all add: demo_states run_defs)
  from handleEnded_within_section[OF a b c _ d] a b c d e show ?thesis
    by (simp add: position_def timer_fires_def)
qed

section \<open>Auto-advance at the end of a section\<close>

text \<open>
  Claim C2. Let section \<open>S\<close> be active with the audio element present and the
  active index be the last index of its filtered item list, and let the
  section list be in strictly ascending order of identifiers and hold \<open>S\<close>
  (the ordering contract of the data model). If some section has a greater
  identifier, \<open>handleEnded\<close> changes nothing but sets one timer of 2000 ms, for
  the section with the smallest identifier greater than \<open>S\<close>; when that timer
  fires, the playback position becomes (that section, 0) and the first item of
  that section, if it has one, is loaded and played. If no section has a
  greater identifier, \<open>handleEnded\<close> changes nothing: the position stays, no
  timer is set and no play command is issued.
\<close>

theorem handleEnded_end_of_section:
  assumes aud: "audioRef st \<noteq> None"
    and cs: "currentSurah st = Some S"
    and ne: "filteredAyahs st \<noteq> []"
    and ca: "currentAyah st = Some (int (length (filteredAyahs st)) - 1)"
    and srt: "sorted_wrt (<) (map number (surahs st))"
    and mem: "S \<in> number ` set (surahs st)"
  shows "((\<exists>s \<in> set (surahs st). S < number s) \<longrightarrow>
            (\<exists>ns. is_next_section (surahs st) S ns
               \<and> handleEnded st =
                   st\<lparr>pending := pending st @ [(2000, ResumeNextSurah ns (ayahs st))]\<rparr>
               \<and> position (timer_fires (length (pending st)) (handleEnded st))
                   = (Some (number ns), Some 0)
               \<and> (case filter (\<lambda>a. number (surah a) = number ns) (ayahs st) of
                     [] \<Rightarrow> timer_fires (length (pending st)) (handleEnded st) =
                            st\<lparr>currentSurah := Some (number ns), currentAyah := Some 0\<rparr>
                   | first # _ \<Rightarrow>
                       timer_fires (length (pending st)) (handleEnded st) =
                         st\<lparr>currentSurah := Some (number ns), currentAyah := Some 0,
                            audioRef := Some (audio first),
                            played := played st @ [audio first]\<rparr>)))
         \<and> ((\<forall>s \<in> set (surahs st). \<not> S < number s) \<longrightarrow> handleEnded st = st)"
proof -
  let ?k = "findIndex (\<lambda>s. Some (number s) = currentSurah st) (surahs st) + 1"
  from aud obtain src where src: "audioRef st = Some src" by auto
  have step: "handleEnded st =
      (case js_index (surahs st) ?k of
         None \<Rightarrow> st
       | Some ns \<Rightarrow> st\<lparr>pending := pending st @ [(2000, ResumeNextSurah ns (ayahs st))]\<rparr>)"
    using src ca ne by (simp add: handleEnded_def Let_def)
  note nxt = positional_next_is_least_greater[OF srt mem]
  show ?thesis
  proof (cases "js_index (surahs st) ?k")
    case None
    with nxt cs have "\<forall>s \<in> set (surahs st). \<not> S < number s" by simp
    moreover from None step have "handleEnded st = st" by simp
    ultimately show ?thesis by simp
  next
    case (Some ns)
    with nxt cs have isn: "is_next_section (surahs st) S ns" by simp
    from Some step have he: "handleEnded st =
        st\<lparr>pending := pending st @ [(2000, ResumeNextSurah ns (ayahs st))]\<rparr>" by simp
    have ex: "\<exists>s \<in> set (surahs st). S < number s"
      using isn by (auto simp: is_next_section_def)
    have pos: "position (timer_fires (length (pending st)) (handleEnded st))
                   = (Some (number ns), Some 0)"
      unfolding he
      by (simp add: timer_fires_def position_def Let_def split: list.splits option.splits)
    have fire: "(case filter (\<lambda>a. number (surah a) = number ns) (ayahs st) of
                     [] \<Rightarrow> timer_fires (length (pending st)) (handleEnded st) =
                            st\<lparr>currentSurah := Some (number ns), currentAyah := Some 0\<rparr>
                   | first # _ \<Rightarrow>
                       timer_fires (length (pending st)) (handleEnded st) =
                         st\<lparr>currentSurah := Some (number ns), currentAyah := Some 0,
                            audioRef := Some (audio first),
                            played := played st @ [audio first]\<rparr>)"
      unfolding he using src by (simp add: timer_fires_def Let_def split: list.splits)
    from isn he pos fire ex show ?thesis by blast
  qed
qed

text \<open>
  The run at the last item of the first section (a next section exists), and
  at the only item of the fifth and last section (none exists).
\<close>

theorem handleEnded_end_of_section_witness:
  "audioRef demo_last \<noteq> None
   \<and> currentSurah demo_last = Some 1
   \<and> filteredAyahs demo_last \<noteq> []
   \<and> currentAyah demo_last = Some (int (length (filteredAyahs demo_last)) - 1)
   \<and> sorted_wrt (<) (map number (surahs demo_last))
   \<and> 1 \<in> number ` set (surahs demo_last)
   \<and> (\<exists>s \<in> set (surahs demo_last). 1 < number s)
   \<and> (\<exists>ns. is_next_section (surahs demo_last) 1 ns
         \<and> handleEnded demo_last =
             demo_last\<lparr>pending := pending demo_last @ [(2000, ResumeNextSurah ns (ayahs demo_last))]\<rparr>
         \<and> position (timer_fires (length (pending demo_last)) (handleEnded demo_last))
             = (Some (number ns), Some 0))
   \<and> position (timer_fires 0 (handleEnded demo_last)) = (Some 2, Some 0)
   \<and> played (timer_fires 0 (handleEnded demo_last)) = ['''', ''a3.mp3'']
   \<and> currentSurah demo_fifth = Some 5
   \<and> handleEnded demo_fifth = demo_fifth"
proof -
  have a: "audioRef demo_last \<noteq> None" by (simp add: demo_states)
  have b: "currentSurah demo_last = Some 1" by (simp add: demo_states)
  have c: "filteredAyahs demo_last \<noteq> []" by (simp add: demo_states run_defs)
  have d: "currentAyah demo_last = Some (int (length (filteredAyahs demo_last)) - 1)"
    by (simp add: demo_states run_defs)
  have e: "sorted_wrt (<) (map number (surahs demo_last))" by (simp add: demo_states)
  have f: "1 \<in> number ` set (surahs demo_last)" by (simp add: demo_states)
  have g: "\<exists>s \<in> set (surahs demo_last). 1 < number s" by (simp add: demo_states)
  have h: "position (timer_fires 0 (handleEnded demo_last)) = (Some 2, Some 0)"
    "played (timer_fires 0 (handleEnded demo_last)) = ['''', ''a3.mp3'']"
    by (simp_all add: demo_states run_defs)
  have a': "audioRef demo_fifth \<noteq> None" by (simp add: demo_states)
  have b': "currentSurah demo_fifth = Some 5" by (simp add: demo_states)
  have c': "filteredAyahs demo_fifth \<noteq> []" by (simp add: demo_states run_defs)
  have d': "currentAyah demo_fifth = Some (int (length (filteredAyahs demo_fifth)) - 1)"
    by (simp add: demo_states run_defs)
  have e': "sorted_wrt (<) (map number (surahs demo_fifth))" by (simp add: demo_states)
  have f': "5 \<in> number ` set (surahs demo_fifth)" by (simp add: demo_states)
  have g': "\<forall>s \<in> set (surahs demo_fifth). \<not> 5 < number s" by (simp add: demo_states)
  from handleEnded_end_of_section[OF a b c d e f] g
  have first: "\<exists>ns. is_next_section (surahs demo_last) 1 ns
         \<and> handleEnded demo_last =
             demo_last\<lparr>pending := pending demo_last @ [(2000, ResumeNextSurah ns (ayahs demo_last))]\<rparr>
         \<and> position (timer_fires (length (pending demo_last)) (handleEnded demo_last))
             = (Some (number ns), Some 0)"
    by blast
  from handleEnded_end_of_section[OF a' b' c' d' e' f'] g'
  have last: "handleEnded demo_fifth = demo_fifth" by blast
  from a b c d e f g h b' first last show ?thesis by blast
qed

section \<open>A manual selection while a timer is pending\<close>

text \<open>
  Claim C3, as the code has it. The component keeps no generation marker and
  cancels no timer: a click on a section or on an item leaves the pending
  timers as they are. When a pending 1000 ms timer fires in any state, the
  playback position of that state stays and one play command is issued on
  the source the element then has. When a pending 2000 ms timer fires in any
  state, the playback position becomes (next section, 0) for the section
  found when playback finished, whatever the position was.
\<close>

theorem stale_timer_not_discarded:
  "pending (surahOnClick s st) = pending st
   \<and> pending (handlePlayAyah j st) = pending st
   \<and> (k < length (pending st) \<and> snd (pending st ! k) = ResumePlay \<longrightarrow>
        position (timer_fires k st) = position st
        \<and> (\<forall>src. audioRef st = Some src \<longrightarrow> played (timer_fires k st) = played st @ [src]))
   \<and> (k < length (pending st) \<and> snd (pending st ! k) = ResumeNextSurah ns ays \<longrightarrow>
        position (timer_fires k st) = (Some (number ns), Some 0))"
  by (simp add: surahOnClick_def handlePlayAyah_def timer_fires_def position_def Let_def
        split: option.splits list.splits)

text \<open>
  Playback finishes at the last item of section 1; during the 2000 ms the user
  clicks the first item, which sets the position to (1, 0); the timer then
  fires and the position is (2, 0).
\<close>

theorem stale_timer_counterexample:
  "pending (handleEnded demo_last) \<noteq> []
   \<and> position (handlePlayAyah 0 (handleEnded demo_last)) = (Some 1, Some 0)
   \<and> position (timer_fires 0 (handlePlayAyah 0 (handleEnded demo_last))) = (Some 2, Some 0)"
  by (simp add: demo_states run_defs)

text \<open>
  The same run, and one where the user clicks section 4 during the 1000 ms
  after the first item of section 1: the position (4, 0) stays and the locator
  of section 4 is played a second time.
\<close>

theorem stale_timer_not_discarded_witness:
  "(0::nat) < length (pending (handlePlayAyah 0 (handleEnded demo_last)))
   \<and> snd (pending (handlePlayAyah 0 (handleEnded demo_last)) ! 0)
       = ResumeNextSurah (surahs demo_last ! 1) (ayahs demo_last)
   \<and> position (timer_fires 0 (handlePlayAyah 0 (handleEnded demo_last)))
       = (Some (number (surahs demo_last ! 1)), Some 0)
   \<and> (0::nat) < length (pending (surahOnClick (surahs demo_playing ! 3) (handleEnded demo_playing)))
   \<and> snd (pending (surahOnClick (surahs demo_playing ! 3) (handleEnded demo_playing)) ! 0)
       = ResumePlay
   \<and> position (timer_fires 0 (surahOnClick (surahs demo_playing ! 3) (handleEnded demo_playing)))
       = (Some 4, Some 0)
   \<and> played (timer_fires 0 (surahOnClick (surahs demo_playing ! 3) (handleEnded demo_playing)))
       = [''a4.mp3'', ''a4.mp3'']"
proof -
  let ?m = "handlePlayAyah 0 (handleEnded demo_last)"
  let ?n = "surahOnClick (surahs demo_playing ! 3) (handleEnded demo_playing)"
  have a: "(0::nat) < length (pending ?m)" by (simp add: demo_states run_defs)
  have b: "snd (pending ?m ! 0) = ResumeNextSurah (surahs demo_last ! 1) (ayahs demo_last)"
    by (simp add: demo_states run_defs)
  have c: "(0::nat) < length (pending ?n)" by (simp add: demo_states run_defs)
  have d: "snd (pending ?n ! 0) = ResumePlay" by (simp add: demo_states run_defs)
  have e: "position ?n = (Some 4, Some 0)" "audioRef ?n = Some ''a4.mp3''"
    "played ?n = [''a4.mp3'']"
    by (simp_all add: demo_states run_defs)
  from stale_timer_not_discarded[where st = ?m and k = 0 and ns = "surahs demo_last ! 1"
      and ays = "ayahs demo_last"] a b
  have two: "position (timer_fires 0 ?m) = (Some (number (surahs demo_last ! 1)), Some 0)"
    by blast
  from stale_timer_not_discarded[where st = ?n and k = 0] c d e
  have one: "position (timer_fires 0 ?n) = (Some 4, Some 0)"
    "played (timer_fires 0 ?n) = [''a4.mp3'', ''a4.mp3'']"
    by simp_all
  from a b c d two one show ?thesis by blast
qed

section \<open>Validity of the item index\<close>




section \<open>Selecting a section\<close>

text \<open>
  Claim C5. For a section with at least one item, selecting it sets the
  playback position to (section, 0) and begins playback of the first item
  when its locator is non-empty. The click handler sets the position and
  attempts the play, but the audio element is mounted only by a render with a
  selected section, so on the first selection after the load the ref is still
  empty and the attempt does nothing: for section 1, whose first item has the
  locator \<open>a1.mp3\<close>, the position becomes (1, 0), no source is loaded and no
  play command is issued. The same click repeated after the render plays
  \<open>a1.mp3\<close>.
\<close>

theorem first_selection_plays_nothing:
  "number (surahs demo_idle ! 0) = 1
   \<and> map audio (filteredAyahs (surahOnClick (surahs demo_idle ! 0) demo_idle))
       = [''a1.mp3'', '''']
   \<and> position (surahOnClick (surahs demo_idle ! 0) demo_idle) = (Some 1, Some 0)
   \<and> audioRef (surahOnClick (surahs demo_idle ! 0) demo_idle) = None
   \<and> played (surahOnClick (surahs demo_idle ! 0) demo_idle) = []
   \<and> played (surahOnClick (surahs demo_idle ! 0)
               (render (surahOnClick (surahs demo_idle ! 0) demo_idle)))
       = [''a1.mp3'']"
  by (simp add: demo_states run_defs render_def)

text \<open>
  The click handler in general, for a section with at least one item in the
  filtered list: the position is set in every case; the first item is loaded
  and played exactly when the audio element is present at the click.
\<close>

lemma surahOnClick_nonempty_section:
  assumes ne: "filteredAyahs (surahOnClick s st) \<noteq> []"
  shows "position (surahOnClick s st) = (Some (number s), Some 0)
         \<and> (audioRef st \<noteq> None \<longrightarrow>
              audioRef (surahOnClick s st) = Some (audio (hd (filteredAyahs (surahOnClick s st))))
              \<and> played (surahOnClick s st) =
                  played st @ [audio (hd (filteredAyahs (surahOnClick s st)))])
         \<and> (audioRef st = None \<longrightarrow>
              audioRef (surahOnClick s st) = None \<and> played (surahOnClick s st) = played st)"
proof -
  from ne have nz: "number s \<noteq> 0"
    and fl: "filter (\<lambda>a. number (surah a) = number s) (ayahs st) \<noteq> []"
    by (auto simp: filteredAyahs_surahOnClick split: if_splits)
  from fl obtain first rest
    where fr: "filter (\<lambda>a. number (surah a) = number s) (ayahs st) = first # rest"
    by (cases "filter (\<lambda>a. number (surah a) = number s) (ayahs st)") auto
  then have fnd: "find (\<lambda>a. number (surah a) = number s) (ayahs st) = Some first"
    by (simp add: find_filter_conv)
  have hd: "hd (filteredAyahs (surahOnClick s st)) = first"
    using nz fr by (simp add: filteredAyahs_surahOnClick)
  show ?thesis
    unfolding hd using fnd
    by (auto simp: surahOnClick_def position_def Let_def split: option.splits)
qed

section \<open>Selecting a section without items\<close>

text \<open>
  Claim C6, as the code has it. When the section \<open>s\<close> of the clicked button has
  a non-zero identifier and no item in the filtered list, the click sets the
  playback position to (\<open>s\<close>, 0), not to (\<open>s\<close>, none), and changes nothing else:
  no source is loaded and no play command is issued.
\<close>

theorem surahOnClick_empty_section:
  assumes nz: "number s \<noteq> 0"
    and emp: "filteredAyahs (surahOnClick s st) = []"
  shows "position (surahOnClick s st) = (Some (number s), Some 0)
         \<and> played (surahOnClick s st) = played st
         \<and> audioRef (surahOnClick s st) = audioRef st
         \<and> surahOnClick s st = st\<lparr>currentSurah := Some (number s), currentAyah := Some 0\<rparr>"
proof -
  from nz emp have "filter (\<lambda>a. number (surah a) = number s) (ayahs st) = []"
    by (simp add: filteredAyahs_surahOnClick)
  then have "find (\<lambda>a. number (surah a) = number s) (ayahs st) = None"
    by (simp add: find_filter_conv)
  then show ?thesis
    by (simp add: surahOnClick_def position_def Let_def split: option.splits)
qed

text \<open>A click on section 3, which has no items: the item index is 0.\<close>

theorem empty_section_counterexample:
  "number (surahs demo_playing ! 2) = 3
   \<and> filteredAyahs (surahOnClick (surahs demo_playing ! 2) demo_playing) = []
   \<and> position (surahOnClick (surahs demo_playing ! 2) demo_playing) = (Some 3, Some 0)
   \<and> position (surahOnClick (surahs demo_playing ! 2) demo_playing) \<noteq> (Some 3, None)"
  by (simp add: demo_states run_defs)

theorem surahOnClick_empty_section_witness:
  "number (surahs demo_playing ! 2) \<noteq> 0
   \<and> filteredAyahs (surahOnClick (surahs demo_playing ! 2) demo_playing) = []
   \<and> position (surahOnClick (surahs demo_playing ! 2) demo_playing)
       = (Some (number (surahs demo_playing ! 2)), Some 0)
   \<and> played (surahOnClick (surahs demo_playing ! 2) demo_playing) = played demo_playing"
proof -
  let ?s = "surahs demo_playing ! 2"
  have a: "number ?s \<noteq> 0" by (simp add: demo_states)
  have b: "filteredAyahs (surahOnClick ?s demo_playing) = []"
    by (simp add: demo_states run_defs)
  from surahOnClick_empty_section[OF a b] a b show ?thesis by blast
qed

section \<open>Items without an audio locator\<close>




section \<open>The scroll offset\<close>

text \<open>
  Claim C8. For a container of height \<open>H\<close> and a target element at offset \<open>T\<close>
  of height \<open>E\<close>, the scroll command asks for \<open>T - H/2 + E/2\<close>, or for 0 when
  that is negative; for \<open>H = 400\<close>, \<open>T = 1000\<close>, \<open>E = 50\<close> it asks for 825. Both
  layout effects, whenever they scroll, issue this command for the container
  and the element they resolved.
\<close>

theorem scroll_offset_formula:
  "sc_top (scrollTo container node r) =
     max ((of_int (offsetTop node) :: rat) - of_int (clientHeight container) / 2
            + of_int (offsetHeight node) / 2) 0
   \<and> 0 \<le> sc_top (scrollTo container node r)
   \<and> (clientHeight container = 400 \<and> offsetTop node = 1000 \<and> offsetHeight node = 50 \<longrightarrow>
        sc_top (scrollTo container node r) = 825)
   \<and> (surah_scroll_effect st d r = Some cmd \<longrightarrow>
        (\<exists>c n. getActiveSurahContext d
                  (findIndex (\<lambda>s. Some (number s) = currentSurah st) (surahs st))
                = (Some c, Some n)
               \<and> cmd = scrollTo c n r))
   \<and> (ayah_scroll_effect st d r = Some cmd \<longrightarrow>
        (\<exists>c n cur. currentAyah st = Some cur \<and> ayahScrollRef d = Some c
               \<and> ref_at (ayahRefs d) cur = Some n \<and> cmd = scrollTo c n r))"
proof -
  have f: "sc_top (scrollTo container node r) =
     max ((of_int (offsetTop node) :: rat) - of_int (clientHeight container) / 2
            + of_int (offsetHeight node) / 2) 0"
    by (simp add: scrollTo_def scroll_offset_def)
  have z: "0 \<le> sc_top (scrollTo container node r)"
    by (simp add: scrollTo_def)
  have e: "clientHeight container = 400 \<and> offsetTop node = 1000 \<and> offsetHeight node = 50 \<longrightarrow>
        sc_top (scrollTo container node r) = 825"
    by (simp add: scrollTo_def scroll_offset_def)
  have s: "surah_scroll_effect st d r = Some cmd \<longrightarrow>
        (\<exists>c n. getActiveSurahContext d
                  (findIndex (\<lambda>s. Some (number s) = currentSurah st) (surahs st))
                = (Some c, Some n)
               \<and> cmd = scrollTo c n r)"
    by (auto simp: surah_scroll_effect_def Let_def split: if_splits prod.splits option.splits)
  have a: "ayah_scroll_effect st d r = Some cmd \<longrightarrow>
        (\<exists>c n cur. currentAyah st = Some cur \<and> ayahScrollRef d = Some c
               \<and> ref_at (ayahRefs d) cur = Some n \<and> cmd = scrollTo c n r)"
    by (auto simp: ayah_scroll_effect_def split: option.splits)
  from f z e s a show ?thesis by blast
qed

text \<open>
  The layout of the run: the element at offset 1000 gives 825, the element at
  offset 10 gives a negative offset and is clamped to 0.
\<close>

theorem scroll_offset_formula_witness:
  "clientHeight demo_container = 400 \<and> offsetTop demo_node = 1000 \<and> offsetHeight demo_node = 50
   \<and> sc_top (scrollTo demo_container demo_node False) = 825
   \<and> ayah_scroll_effect demo_last demo_dom False
       = Some \<lparr>sc_top = 825, sc_behavior = Smooth\<rparr>
   \<and> surah_scroll_effect demo_last demo_dom True
       = Some \<lparr>sc_top = 825, sc_behavior = Auto\<rparr>
   \<and> ayah_scroll_effect demo_playing demo_dom False
       = Some \<lparr>sc_top = 0, sc_behavior = Smooth\<rparr>"
proof -
  have a: "clientHeight demo_container = 400 \<and> offsetTop demo_node = 1000
           \<and> offsetHeight demo_node = 50"
    by (simp add: demo_container_def demo_node_def)
  have b: "ayah_scroll_effect demo_last demo_dom False
       = Some \<lparr>sc_top = 825, sc_behavior = Smooth\<rparr>"
    "surah_scroll_effect demo_last demo_dom True
       = Some \<lparr>sc_top = 825, sc_behavior = Auto\<rparr>"
    "ayah_scroll_effect demo_playing demo_dom False
       = Some \<lparr>sc_top = 0, sc_behavior = Smooth\<rparr>"
    by (simp_all add: ayah_scroll_effect_def surah_scroll_effect_def getActiveSurahContext_def
          isVisible_def ref_at_def js_index_def scrollTo_def scroll_offset_def
          demo_dom_def demo_container_def demo_node_def demo_states Let_def)
  from scroll_offset_formula[of demo_container demo_node False] a
  have c: "sc_top (scrollTo demo_container demo_node False) = 825" by blast
  from a b c show ?thesis by blast
qed

section \<open>The merge is positional\<close>

text \<open>
  Claim C9. For every section index \<open>K\<close> and item index \<open>N\<close> of the first
  edition, the merged item at that place (after the items of the sections
  before \<open>K\<close>) takes its identifier, audio locator, native text and section
  labels from item \<open>N\<close> of section \<open>K\<close> of the first edition, and its
  transliteration and translation from item \<open>N\<close> of section \<open>K\<close> of the other
  two editions when they have one, the empty string otherwise. No identifier
  of the other editions is read, the merged list has one item per item of the
  first edition, and the load sets no error.
\<close>

theorem combined_positional:
  assumes K: "K < length ar" and N: "N < length (rs_ayahs (ar ! K))"
  shows "combined ar tr en ! (section_offset ar K + N) =
           \<lparr>a_number = r_number (rs_ayahs (ar ! K) ! N),
            audio = (case r_audio (rs_ayahs (ar ! K) ! N) of None \<Rightarrow> '''' | Some u \<Rightarrow> u),
            a_text = r_text (rs_ayahs (ar ! K) ! N),
            transliteration =
              (if K < length tr \<and> N < length (rs_ayahs (tr ! K))
               then r_text (rs_ayahs (tr ! K) ! N) else ''''),
            translation =
              (if K < length en \<and> N < length (rs_ayahs (en ! K))
               then r_text (rs_ayahs (en ! K) ! N) else ''''),
            surah = \<lparr>number = rs_number (ar ! K), name = rs_name (ar ! K),
                     englishName = rs_englishName (ar ! K)\<rparr>\<rparr>
         \<and> length (combined ar tr en) = section_offset ar (length ar)
         \<and> ayahs (fetchAll (Some (ar, tr, en)) st) = combined ar tr en
         \<and> error (fetchAll (Some (ar, tr, en)) st) = error st"
proof -
  let ?item = "\<lambda>si s (ai, a).
          \<lparr>a_number = r_number a,
           audio = (case r_audio a of None \<Rightarrow> '''' | Some u \<Rightarrow> u),
           a_text = r_text a,
           transliteration = edition_text tr si ai,
           translation = edition_text en si ai,
           surah = \<lparr>number = rs_number s, name = rs_name s,
                    englishName = rs_englishName s\<rparr>\<rparr>"
  let ?xss = "map (\<lambda>(si, s). map (?item si s) (enumerate 0 (rs_ayahs s))) (enumerate 0 ar)"
  have comb: "combined ar tr en = concat ?xss"
    by (simp add: combined_def)
  have lens: "map length ?xss = map (\<lambda>s. length (rs_ayahs s)) ar"
    by (rule map_enumerate_lengths)
  have lK: "K < length ?xss" using K by simp
  have xK: "?xss ! K = map (?item K (ar ! K)) (enumerate 0 (rs_ayahs (ar ! K)))"
    using K by (simp add: nth_enumerate_eq)
  have lN: "N < length (?xss ! K)" using N xK by simp
  have off: "section_offset ar K = sum_list (map length (take K ?xss))"
    unfolding section_offset_def take_map[symmetric] lens ..
  have "combined ar tr en ! (section_offset ar K + N) = ?xss ! K ! N"
    unfolding comb off by (rule nth_concat_offset[OF lK lN])
  also have "\<dots> = ?item K (ar ! K) (N, rs_ayahs (ar ! K) ! N)"
    using N xK by (simp add: nth_enumerate_eq)
  finally have item: "combined ar tr en ! (section_offset ar K + N)
      = ?item K (ar ! K) (N, rs_ayahs (ar ! K) ! N)" .
  have len: "length (combined ar tr en) = section_offset ar (length ar)"
    unfolding comb length_concat_sum lens section_offset_def by simp
  show ?thesis
    using item len by (simp add: edition_text_conv fetchAll_def)
qed

text \<open>
  The editions of the run: the transliteration has an entry for the first
  item only, the translation for none.
\<close>

theorem combined_positional_witness:
  "(0::nat) < length demo_ar \<and> (1::nat) < length (rs_ayahs (demo_ar ! 0))
   \<and> transliteration (combined demo_ar demo_tr demo_en ! (section_offset demo_ar 0 + 1)) = ''''
   \<and> a_text (combined demo_ar demo_tr demo_en ! (section_offset demo_ar 0 + 1)) = ''t2''
   \<and> transliteration (combined demo_ar demo_tr demo_en ! (section_offset demo_ar 0 + 0)) = ''x1''
   \<and> translation (combined demo_ar demo_tr demo_en ! (section_offset demo_ar 0 + 0)) = ''''
   \<and> length (combined demo_ar demo_tr demo_en) = 5"
proof -
  have a: "(0::nat) < length demo_ar" by (simp add: demo_ar_def)
  have b: "(1::nat) < length (rs_ayahs (demo_ar ! 0))" by (simp add: demo_ar_def)
  have b0: "(0::nat) < length (rs_ayahs (demo_ar ! 0))" by (simp add: demo_ar_def)
  have c: "section_offset demo_ar (length demo_ar) = 5"
    by (simp add: section_offset_def demo_ar_def)
  from combined_positional[OF a b, of demo_tr demo_en]
  have one:
    "transliteration (combined demo_ar demo_tr demo_en ! (section_offset demo_ar 0 + 1)) = ''''"
    "a_text (combined demo_ar demo_tr demo_en ! (section_offset demo_ar 0 + 1)) = ''t2''"
    by (simp_all add: demo_ar_def demo_tr_def demo_en_def)
  from combined_positional[OF a b0, of demo_tr demo_en] c
  have two:
    "transliteration (combined demo_ar demo_tr demo_en ! (section_offset demo_ar 0 + 0)) = ''x1''"
    "translation (combined demo_ar demo_tr demo_en ! (section_offset demo_ar 0 + 0)) = ''''"
    "length (combined demo_ar demo_tr demo_en) = 5"
    by (simp_all add: demo_ar_def demo_tr_def demo_en_def)
  from a b one two show ?thesis by blast
qed

section \<open>Frame of \<^verbatim>\<open>handlePlayAyah\<close>\<close>

text \<open>
  Claim C10. For every index, valid or not, \<open>handlePlayAyah\<close> leaves the active
  section identifier, the section list and the merged item list as they were;
  the only fields it may change are the item index, the source of the audio
  element and the list of play commands. When the index is not a valid index
  of the filtered item list, the whole state is unchanged, so no play command
  is issued either.
\<close>

theorem handlePlayAyah_frame:
  "currentSurah (handlePlayAyah i st) = currentSurah st
   \<and> surahs (handlePlayAyah i st) = surahs st
   \<and> ayahs (handlePlayAyah i st) = ayahs st
   \<and> handlePlayAyah i st =
       st\<lparr>currentAyah := currentAyah (handlePlayAyah i st),
          audioRef := audioRef (handlePlayAyah i st),
          played := played (handlePlayAyah i st)\<rparr>
   \<and> (\<not> (0 \<le> i \<and> i < int (length (filteredAyahs st))) \<longrightarrow> handlePlayAyah i st = st)"
  by (simp add: handlePlayAyah_def js_index_def filteredAyahs_def
           split: option.splits)

text \<open>The index 2 and the index -1 on the first section, which has two items.\<close>

theorem handlePlayAyah_frame_witness:
  "\<not> (0 \<le> (2::int) \<and> (2::int) < int (length (filteredAyahs demo_playing)))
   \<and> handlePlayAyah 2 demo_playing = demo_playing
   \<and> \<not> (0 \<le> (- 1::int) \<and> (- 1::int) < int (length (filteredAyahs demo_playing)))
   \<and> handlePlayAyah (- 1) demo_playing = demo_playing
   \<and> currentSurah (handlePlayAyah 1 demo_playing) = Some 1
   \<and> currentAyah (handlePlayAyah 1 demo_playing) = Some 1"
proof -
  have a: "\<not> (0 \<le> (2::int) \<and> (2::int) < int (length (filteredAyahs demo_playing)))"
    by (simp add: demo_states run_defs)
  have b: "\<not> (0 \<le> (- 1::int) \<and> (- 1::int) < int (length (filteredAyahs demo_playing)))"
    by simp
  have c: "currentSurah demo_playing = Some 1" by (simp add: demo_states)
  have d: "currentAyah (handlePlayAyah 1 demo_playing) = Some 1"
    by (simp add: demo_states run_defs)
  from handlePlayAyah_frame[of 2 demo_playing] a
  have two: "handlePlayAyah 2 demo_playing = demo_playing" by blast
  from handlePlayAyah_frame[of "- 1" demo_playing] b
  have neg: "handlePlayAyah (- 1) demo_playing = demo_playing" by blast
  from handlePlayAyah_frame[of 1 demo_playing] c
  have one: "currentSurah (handlePlayAyah 1 demo_playing) = Some 1" by simp
  from a b two neg one d show ?thesis by blast
qed

end
